theory Spec2Isabelle
  imports Complex_Main
begin

section \<open>Number model\<close>

text \<open>
  The notebook computes with Python floats and, from the first call of numpy's
  \<^verbatim>\<open>sign\<close> on, with numpy \<^verbatim>\<open>float64\<close> scalars. A finite float is modelled by the
  real number it denotes and the arithmetic on finite values is exact: rounding, overflow
  and the sign of a zero are not modelled (the decimal literals \<^verbatim>\<open>-9.81\<close>, \<^verbatim>\<open>0.1\<close> and
  \<^verbatim>\<open>0.035\<close> are the rationals they spell). The three special values of the format
  are kept, because the code can produce them: \<^verbatim>\<open>sign(v)\<close> is a numpy scalar, so
  \<^verbatim>\<open>force_air\<close> and \<^verbatim>\<open>total_force\<close> are numpy scalars, and the true division of a numpy
  scalar by zero raises nothing: it yields \<^verbatim>\<open>nan\<close> or an infinity (with a
  \<^verbatim>\<open>RuntimeWarning\<close>), which then flows through the rest of the arithmetic.
\<close>

datatype npfloat = Fin real | PInf | NInf | NaN

fun np_neg :: "npfloat \<Rightarrow> npfloat" where
  "np_neg (Fin x) = Fin (- x)"
| "np_neg PInf = NInf"
| "np_neg NInf = PInf"
| "np_neg NaN = NaN"

fun np_add :: "npfloat \<Rightarrow> npfloat \<Rightarrow> npfloat" where
  "np_add (Fin x) (Fin y) = Fin (x + y)"
| "np_add (Fin x) PInf = PInf"
| "np_add (Fin x) NInf = NInf"
| "np_add PInf (Fin y) = PInf"
| "np_add NInf (Fin y) = NInf"
| "np_add PInf PInf = PInf"
| "np_add NInf NInf = NInf"
| "np_add PInf NInf = NaN"
| "np_add NInf PInf = NaN"
| "np_add NaN y = NaN"
| "np_add x NaN = NaN"

fun np_mul :: "npfloat \<Rightarrow> npfloat \<Rightarrow> npfloat" where
  "np_mul (Fin x) (Fin y) = Fin (x * y)"
| "np_mul (Fin x) PInf = (if x = 0 then NaN else if 0 < x then PInf else NInf)"
| "np_mul (Fin x) NInf = (if x = 0 then NaN else if 0 < x then NInf else PInf)"
| "np_mul PInf (Fin y) = (if y = 0 then NaN else if 0 < y then PInf else NInf)"
| "np_mul NInf (Fin y) = (if y = 0 then NaN else if 0 < y then NInf else PInf)"
| "np_mul PInf PInf = PInf"
| "np_mul NInf NInf = PInf"
| "np_mul PInf NInf = NInf"
| "np_mul NInf PInf = NInf"
| "np_mul NaN y = NaN"
| "np_mul x NaN = NaN"

text \<open>
  \<^verbatim>\<open>x / y\<close> on numpy scalars. A zero divisor is the positive zero (the \<^verbatim>\<open>0\<close> or
  \<^verbatim>\<open>0.0\<close> a caller passes as \<^verbatim>\<open>mass\<close>): a non-zero numerator gives the infinity of
  its own sign, a zero numerator gives \<^verbatim>\<open>nan\<close>.
\<close>

fun np_truediv :: "npfloat \<Rightarrow> npfloat \<Rightarrow> npfloat" where
  "np_truediv (Fin x) (Fin y) =
     (if y = 0 then (if x = 0 then NaN else if 0 < x then PInf else NInf)
      else Fin (x / y))"
| "np_truediv (Fin x) PInf = Fin 0"
| "np_truediv (Fin x) NInf = Fin 0"
| "np_truediv PInf (Fin y) = (if 0 \<le> y then PInf else NInf)"
| "np_truediv NInf (Fin y) = (if 0 \<le> y then NInf else PInf)"
| "np_truediv PInf PInf = NaN"
| "np_truediv PInf NInf = NaN"
| "np_truediv NInf PInf = NaN"
| "np_truediv NInf NInf = NaN"
| "np_truediv NaN y = NaN"
| "np_truediv x NaN = NaN"

text \<open>\<^verbatim>\<open>x ** 2\<close>.\<close>

fun np_pow2 :: "npfloat \<Rightarrow> npfloat" where
  "np_pow2 (Fin x) = Fin (x\<^sup>2)"
| "np_pow2 PInf = PInf"
| "np_pow2 NInf = PInf"
| "np_pow2 NaN = NaN"

text \<open>numpy's \<^verbatim>\<open>sign\<close>: \<open>-1\<close>, \<open>0\<close> or \<open>1\<close>, and \<^verbatim>\<open>nan\<close> for \<^verbatim>\<open>nan\<close>.\<close>

fun sign :: "npfloat \<Rightarrow> npfloat" where
  "sign (Fin x) = Fin (sgn x)"
| "sign PInf = Fin 1"
| "sign NInf = Fin (- 1)"
| "sign NaN = NaN"

text \<open>\<^verbatim>\<open>x > y\<close>; every comparison with \<^verbatim>\<open>nan\<close> is false.\<close>

fun np_gt :: "npfloat \<Rightarrow> npfloat \<Rightarrow> bool" where
  "np_gt (Fin x) (Fin y) = (y < x)"
| "np_gt PInf (Fin y) = True"
| "np_gt PInf NInf = True"
| "np_gt (Fin x) NInf = True"
| "np_gt NaN y = False"
| "np_gt x NaN = False"
| "np_gt x PInf = False"
| "np_gt NInf y = False"

section \<open>The three functions of the notebook\<close>

text \<open>
  \<^verbatim>\<open>calculate_acceleration(v, k=0.0, mass=1.0, gravity=-9.81)\<close>. The expression
  \<^verbatim>\<open>-sign(v)*k*v**2\<close> is \<^verbatim>\<open>((-sign(v))*k)*(v**2)\<close>.
\<close>

definition calculate_acceleration :: "npfloat \<Rightarrow> npfloat \<Rightarrow> npfloat \<Rightarrow> npfloat \<Rightarrow> npfloat" where
  "calculate_acceleration v k mass gravity =
     (let force_gravity = np_mul mass gravity;
          force_air = np_mul (np_mul (np_neg (sign v)) k) (np_pow2 v);
          total_force = np_add force_gravity force_air;
          a = np_truediv total_force mass
      in a)"

text \<open>
  \<^verbatim>\<open>update_state(t, x, v, a, dt=0.1)\<close>. The displacement is computed first, from the
  velocity the function was called with; then \<^verbatim>\<open>v\<close>, \<^verbatim>\<open>t\<close> and \<^verbatim>\<open>x\<close> are updated.
\<close>

definition update_state ::
  "npfloat \<Rightarrow> npfloat \<Rightarrow> npfloat \<Rightarrow> npfloat \<Rightarrow> npfloat \<Rightarrow> npfloat \<times> npfloat \<times> npfloat" where
  "update_state t x v a dt =
     (let distance_moved =
            np_add (np_mul v dt) (np_mul (np_mul (Fin (1 / 2)) a) (np_pow2 dt));
          v' = np_add v (np_mul a dt);
          t' = np_add t dt;
          x' = np_add x distance_moved
      in (t', x', v'))"

text \<open>
  The local variables of \<^verbatim>\<open>falling_mass\<close> that the loop reads and writes: the current
  \<^verbatim>\<open>t\<close>, \<^verbatim>\<open>h\<close>, \<^verbatim>\<open>v\<close> and the three lists. (\<^verbatim>\<open>distance_moved = 0\<close> is assigned once
  and never read.)
\<close>

record sim_state =
  cur_t :: npfloat
  cur_h :: npfloat
  cur_v :: npfloat
  time :: "npfloat list"
  height :: "npfloat list"
  velocity :: "npfloat list"

definition start_velocity :: npfloat where
  "start_velocity = Fin 0"

definition gravity :: npfloat where
  "gravity = Fin (- (981 / 100))"

text \<open>One pass through the body of the \<^verbatim>\<open>while\<close> loop.\<close>

definition loop_body :: "npfloat \<Rightarrow> npfloat \<Rightarrow> npfloat \<Rightarrow> sim_state \<Rightarrow> sim_state" where
  "loop_body k mass dt s =
     (let a = calculate_acceleration (cur_v s) k mass gravity;
          height' = height s @ [cur_h s];
          velocity' = velocity s @ [cur_v s];
          time' = time s @ [cur_t s];
          (t', h', v') = update_state (cur_t s) (cur_h s) (cur_v s) a dt
      in \<lparr>cur_t = t', cur_h = h', cur_v = v',
          time = time', height = height', velocity = velocity'\<rparr>)"

text \<open>
  \<^verbatim>\<open>while h > 0: ...\<close>. The loop need not end (with \<^verbatim>\<open>dt = 0\<close> the height never
  changes), so its result is an option: \<open>None\<close> is a run that never leaves the loop.
\<close>

partial_function (option) falling_loop ::
  "npfloat \<Rightarrow> npfloat \<Rightarrow> npfloat \<Rightarrow> sim_state \<Rightarrow> sim_state option" where
  "falling_loop k mass dt s =
     (if np_gt (cur_h s) (Fin 0) then falling_loop k mass dt (loop_body k mass dt s)
      else Some s)"

declare falling_loop.simps [code]

text \<open>
  \<^verbatim>\<open>falling_mass(initial_height, k=0.0, mass=1.0, dt=0.1)\<close>. Every parameter is
  explicit here; a call that leaves one out passes its default, named below. The result
  is the triple \<^verbatim>\<open>(time, height, velocity)\<close>.
\<close>

definition default_k :: npfloat where
  "default_k = Fin 0"



definition falling_mass ::
  "npfloat \<Rightarrow> npfloat \<Rightarrow> npfloat \<Rightarrow> npfloat
     \<Rightarrow> (npfloat list \<times> npfloat list \<times> npfloat list) option" where
  "falling_mass initial_height k mass dt =
     (let s0 = \<lparr>cur_t = Fin 0, cur_h = initial_height, cur_v = start_velocity,
                time = [], height = [], velocity = []\<rparr>
      in map_option (\<lambda>s. (time s, height s, velocity s)) (falling_loop k mass dt s0))"

section \<open>The samples of a run\<close>

text \<open>
  What one pass of the loop body does to the current \<^verbatim>\<open>(t, h, v)\<close>: the acceleration
  is computed from the current velocity, and \<^verbatim>\<open>update_state\<close> advances the state.
\<close>

fun advance :: "npfloat \<Rightarrow> npfloat \<Rightarrow> npfloat \<Rightarrow> npfloat \<times> npfloat \<times> npfloat
    \<Rightarrow> npfloat \<times> npfloat \<times> npfloat" where
  "advance k mass dt (t, h, v) =
     update_state t h v (calculate_acceleration v k mass gravity) dt"

text \<open>
  The state \<^verbatim>\<open>(t, h, v)\<close> at the head of the loop after \<open>n\<close> passes, whether or not
  the loop is still running then: the initial state, advanced \<open>n\<close> times.
\<close>

fun sample :: "npfloat \<Rightarrow> npfloat \<Rightarrow> npfloat \<Rightarrow> npfloat \<Rightarrow> nat \<Rightarrow> npfloat \<times> npfloat \<times> npfloat" where
  "sample initial_height k mass dt 0 = (Fin 0, initial_height, start_velocity)"
| "sample initial_height k mass dt (Suc n) = advance k mass dt (sample initial_height k mass dt n)"

definition sample_t :: "npfloat \<Rightarrow> npfloat \<Rightarrow> npfloat \<Rightarrow> npfloat \<Rightarrow> nat \<Rightarrow> npfloat" where
  "sample_t initial_height k mass dt n = fst (sample initial_height k mass dt n)"

definition sample_h :: "npfloat \<Rightarrow> npfloat \<Rightarrow> npfloat \<Rightarrow> npfloat \<Rightarrow> nat \<Rightarrow> npfloat" where
  "sample_h initial_height k mass dt n = fst (snd (sample initial_height k mass dt n))"

definition sample_v :: "npfloat \<Rightarrow> npfloat \<Rightarrow> npfloat \<Rightarrow> npfloat \<Rightarrow> nat \<Rightarrow> npfloat" where
  "sample_v initial_height k mass dt n = snd (snd (sample initial_height k mass dt n))"

text \<open>
  On finite arguments with \<open>mass \<noteq> 0\<close> every sample is finite, and the run is the
  following recursion on real numbers: \<open>accel\<close> is the value of
  \<^verbatim>\<open>calculate_acceleration\<close> under the gravity of \<^verbatim>\<open>falling_mass\<close>, \<open>vel\<close> and \<open>hgt\<close> are
  the velocity and the height after \<open>n\<close> passes.
\<close>

definition accel :: "real \<Rightarrow> real \<Rightarrow> real \<Rightarrow> real" where
  "accel k mass v = (mass * (- (981 / 100)) + (- sgn v) * k * v\<^sup>2) / mass"

fun vel :: "real \<Rightarrow> real \<Rightarrow> real \<Rightarrow> nat \<Rightarrow> real" where
  "vel k mass dt 0 = 0"
| "vel k mass dt (Suc n) = vel k mass dt n + accel k mass (vel k mass dt n) * dt"

fun hgt :: "real \<Rightarrow> real \<Rightarrow> real \<Rightarrow> real \<Rightarrow> nat \<Rightarrow> real" where
  "hgt h0 k mass dt 0 = h0"
| "hgt h0 k mass dt (Suc n) =
     hgt h0 k mass dt n
       + (vel k mass dt n * dt + (1 / 2) * accel k mass (vel k mass dt n) * dt\<^sup>2)"

section \<open>Single steps on finite values\<close>

lemma calculate_acceleration_Fin:
  "mass \<noteq> 0 \<Longrightarrow>
   calculate_acceleration (Fin v) (Fin k) (Fin mass) (Fin g) =
     Fin ((mass * g + (- sgn v) * k * v\<^sup>2) / mass)"
  by (simp add: calculate_acceleration_def)

lemma update_state_Fin:
  "update_state (Fin t) (Fin x) (Fin v) (Fin a) (Fin dt) =
     (Fin (t + dt), Fin (x + (v * dt + (1 / 2) * a * dt\<^sup>2)), Fin (v + a * dt))"
  by (simp add: update_state_def)

section \<open>The loop and its iterations\<close>

lemma falling_loop_stop:
  assumes "\<not> np_gt (cur_h ((loop_body k mass dt ^^ n) s)) (Fin 0)"
    and "\<forall>i<n. np_gt (cur_h ((loop_body k mass dt ^^ i) s)) (Fin 0)"
  shows "falling_loop k mass dt s = Some ((loop_body k mass dt ^^ n) s)"
  using assms
proof (induction n arbitrary: s)
  case 0
  then show ?case by (subst falling_loop.simps) simp
next
  case (Suc n)
  have pos: "np_gt (cur_h s) (Fin 0)" using Suc.prems(2) by (metis funpow_0 zero_less_Suc)
  have a: "\<not> np_gt (cur_h ((loop_body k mass dt ^^ n) (loop_body k mass dt s))) (Fin 0)"
    using Suc.prems(1) by (simp add: funpow_swap1)
  have b: "\<forall>i<n. np_gt (cur_h ((loop_body k mass dt ^^ i) (loop_body k mass dt s))) (Fin 0)"
  proof (intro allI impI)
    fix i assume "i < n"
    then have "Suc i < Suc n" by simp
    with Suc.prems(2) have "np_gt (cur_h ((loop_body k mass dt ^^ Suc i) s)) (Fin 0)" by blast
    then show "np_gt (cur_h ((loop_body k mass dt ^^ i) (loop_body k mass dt s))) (Fin 0)"
      by (simp add: funpow_swap1)
  qed
  have "falling_loop k mass dt s = falling_loop k mass dt (loop_body k mass dt s)"
    using pos by (subst falling_loop.simps) simp
  also have "\<dots> = Some ((loop_body k mass dt ^^ n) (loop_body k mass dt s))"
    using Suc.IH [OF a b] .
  finally show ?case by (simp add: funpow_swap1)
qed

lemma falling_loop_Some:
  assumes run: "falling_loop k mass dt s = Some r"
  shows "\<exists>n. r = (loop_body k mass dt ^^ n) s
           \<and> \<not> np_gt (cur_h r) (Fin 0)
           \<and> (\<forall>i<n. np_gt (cur_h ((loop_body k mass dt ^^ i) s)) (Fin 0))"
proof -
  define P where "P = (\<lambda>k mass dt s r. \<exists>n. r = (loop_body k mass dt ^^ n) s
           \<and> \<not> np_gt (cur_h r) (Fin 0)
           \<and> (\<forall>i<n. np_gt (cur_h ((loop_body k mass dt ^^ i) s)) (Fin 0)))"
  have "P k mass dt s r"
  proof (rule falling_loop.raw_induct [where P = P, OF _ run])
    fix f :: "npfloat \<Rightarrow> npfloat \<Rightarrow> npfloat \<Rightarrow> sim_state \<Rightarrow> sim_state option"
    fix k mass dt s r
    assume IH: "\<And>k mass dt s r. f k mass dt s = Some r \<Longrightarrow> P k mass dt s r"
      and eq: "(if np_gt (cur_h s) (Fin 0) then f k mass dt (loop_body k mass dt s) else Some s) = Some r"
    show "P k mass dt s r"
    proof (cases "np_gt (cur_h s) (Fin 0)")
      case False
      with eq have "r = s" by simp
      with False show ?thesis unfolding P_def by (intro exI [of _ 0]) simp
    next
      case True
      with eq have fr: "f k mass dt (loop_body k mass dt s) = Some r" by simp
      from IH [OF fr] obtain n where n: "r = (loop_body k mass dt ^^ n) (loop_body k mass dt s)"
        "\<not> np_gt (cur_h r) (Fin 0)"
        "\<forall>i<n. np_gt (cur_h ((loop_body k mass dt ^^ i) (loop_body k mass dt s))) (Fin 0)"
        unfolding P_def by blast
      have "\<forall>i<Suc n. np_gt (cur_h ((loop_body k mass dt ^^ i) s)) (Fin 0)"
      proof (intro allI impI)
        fix i assume i: "i < Suc n"
        show "np_gt (cur_h ((loop_body k mass dt ^^ i) s)) (Fin 0)"
        proof (cases i)
          case 0 with True show ?thesis by simp
        next
          case (Suc j)
          with i n(3) show ?thesis by (simp add: funpow_swap1)
        qed
      qed
      with n(1,2) show ?thesis unfolding P_def
        by (intro exI [of _ "Suc n"]) (simp add: funpow_swap1)
    qed
  qed
  then show ?thesis unfolding P_def .
qed

lemma sample_Suc:
  "sample initial_height k mass dt (Suc n) =
     update_state (sample_t initial_height k mass dt n) (sample_h initial_height k mass dt n)
       (sample_v initial_height k mass dt n)
       (calculate_acceleration (sample_v initial_height k mass dt n) k mass gravity) dt"
  by (cases "sample initial_height k mass dt n") (simp add: sample_t_def sample_h_def sample_v_def)

lemma loop_body_funpow:
  "(loop_body k mass dt ^^ n)
      \<lparr>cur_t = Fin 0, cur_h = initial_height, cur_v = start_velocity,
       time = [], height = [], velocity = []\<rparr> =
    \<lparr>cur_t = sample_t initial_height k mass dt n,
     cur_h = sample_h initial_height k mass dt n,
     cur_v = sample_v initial_height k mass dt n,
     time = map (sample_t initial_height k mass dt) [0..<n],
     height = map (sample_h initial_height k mass dt) [0..<n],
     velocity = map (sample_v initial_height k mass dt) [0..<n]\<rparr>"
proof (induction n)
  case 0
  show ?case by (simp add: sample_t_def sample_h_def sample_v_def)
next
  case (Suc n)
  have step: "loop_body k mass dt
      \<lparr>cur_t = t, cur_h = h, cur_v = v, time = ts, height = hs, velocity = vs\<rparr> =
     (case update_state t h v (calculate_acceleration v k mass gravity) dt of
        (t', h', v') \<Rightarrow>
          \<lparr>cur_t = t', cur_h = h', cur_v = v',
           time = ts @ [t], height = hs @ [h], velocity = vs @ [v]\<rparr>)" for t h v ts hs vs
    by (simp add: loop_body_def)
  show ?case
    unfolding funpow.simps o_apply Suc.IH step sample_Suc [symmetric]
    by (simp add: sample_t_def sample_h_def sample_v_def split: prod.splits)
qed

lemma sample_Fin:
  assumes "mass \<noteq> 0"
  shows "sample (Fin h0) (Fin k) (Fin mass) (Fin dt) n =
           (Fin (real n * dt), Fin (hgt h0 k mass dt n), Fin (vel k mass dt n))"
proof (induction n)
  case 0
  show ?case by (simp add: start_velocity_def)
next
  case (Suc n)
  have a: "calculate_acceleration (Fin (vel k mass dt n)) (Fin k) (Fin mass) gravity =
           Fin (accel k mass (vel k mass dt n))"
    using assms by (simp add: gravity_def calculate_acceleration_Fin accel_def)
  show ?case
    by (simp add: Suc.IH a update_state_Fin algebra_simps)
qed

lemma falling_mass_Some:
  assumes "falling_mass initial_height k mass dt = Some (ts, hs, vs)"
  shows "\<exists>n. ts = map (sample_t initial_height k mass dt) [0..<n]
            \<and> hs = map (sample_h initial_height k mass dt) [0..<n]
            \<and> vs = map (sample_v initial_height k mass dt) [0..<n]
            \<and> \<not> np_gt (sample_h initial_height k mass dt n) (Fin 0)
            \<and> (\<forall>i<n. np_gt (sample_h initial_height k mass dt i) (Fin 0))"
proof -
  let ?s0 = "\<lparr>cur_t = Fin 0, cur_h = initial_height, cur_v = start_velocity,
              time = [], height = [], velocity = []\<rparr>"
  from assms obtain r where r: "falling_loop k mass dt ?s0 = Some r"
    and out: "ts = time r" "hs = height r" "vs = velocity r"
    by (auto simp: falling_mass_def)
  from falling_loop_Some [OF r] obtain n where n: "r = (loop_body k mass dt ^^ n) ?s0"
    "\<not> np_gt (cur_h r) (Fin 0)"
    "\<forall>i<n. np_gt (cur_h ((loop_body k mass dt ^^ i) ?s0)) (Fin 0)"
    by blast
  show ?thesis
    using n out by (intro exI [of _ n]) (simp add: loop_body_funpow)
qed

lemma falling_mass_stop:
  assumes "\<not> np_gt (sample_h initial_height k mass dt n) (Fin 0)"
    and "\<forall>i<n. np_gt (sample_h initial_height k mass dt i) (Fin 0)"
  shows "falling_mass initial_height k mass dt =
           Some (map (sample_t initial_height k mass dt) [0..<n],
                 map (sample_h initial_height k mass dt) [0..<n],
                 map (sample_v initial_height k mass dt) [0..<n])"
proof -
  let ?s0 = "\<lparr>cur_t = Fin 0, cur_h = initial_height, cur_v = start_velocity,
              time = [], height = [], velocity = []\<rparr>"
  have "falling_loop k mass dt ?s0 = Some ((loop_body k mass dt ^^ n) ?s0)"
    using assms by (intro falling_loop_stop) (simp_all add: loop_body_funpow)
  then show ?thesis
    by (simp add: falling_mass_def loop_body_funpow)
qed

lemma falling_mass_returns:
  assumes "\<not> np_gt (sample_h initial_height k mass dt n) (Fin 0)"
  shows "\<exists>m\<le>n. falling_mass initial_height k mass dt =
           Some (map (sample_t initial_height k mass dt) [0..<m],
                 map (sample_h initial_height k mass dt) [0..<m],
                 map (sample_v initial_height k mass dt) [0..<m])"
proof -
  define m where "m = (LEAST j. \<not> np_gt (sample_h initial_height k mass dt j) (Fin 0))"
  have stop: "\<not> np_gt (sample_h initial_height k mass dt m) (Fin 0)"
    unfolding m_def using assms by (rule LeastI)
  have le: "m \<le> n" unfolding m_def using assms by (rule Least_le)
  have "\<forall>i<m. np_gt (sample_h initial_height k mass dt i) (Fin 0)"
    unfolding m_def using not_less_Least by blast
  from falling_mass_stop [OF stop this] le show ?thesis by blast
qed




section \<open>Finite runs, the massless run and free fall\<close>

lemma sample_t_Fin_eq:
  "mass \<noteq> 0 \<Longrightarrow> sample_t (Fin h0) (Fin k) (Fin mass) (Fin dt) n = Fin (real n * dt)"
  by (simp add: sample_t_def sample_Fin)

lemma sample_h_Fin:
  "mass \<noteq> 0 \<Longrightarrow> sample_h (Fin h0) (Fin k) (Fin mass) (Fin dt) n = Fin (hgt h0 k mass dt n)"
  by (simp add: sample_h_def sample_Fin)

lemma sample_v_Fin:
  "mass \<noteq> 0 \<Longrightarrow> sample_v (Fin h0) (Fin k) (Fin mass) (Fin dt) n = Fin (vel k mass dt n)"
  by (simp add: sample_v_def sample_Fin)

lemma sample_massless:
  "sample (Fin h0) (Fin k) (Fin 0) (Fin dt) (Suc 0) = (Fin dt, NaN, NaN)"
  by (simp add: update_state_def calculate_acceleration_def start_velocity_def gravity_def)

lemma falling_mass_massless:
  assumes "0 < h0"
  shows "falling_mass (Fin h0) (Fin k) (Fin 0) (Fin dt) = Some ([Fin 0], [Fin h0], [Fin 0])"
proof -
  have stop: "\<not> np_gt (sample_h (Fin h0) (Fin k) (Fin 0) (Fin dt) (Suc 0)) (Fin 0)"
    unfolding sample_h_def sample_massless by simp
  have run: "\<forall>i<Suc 0. np_gt (sample_h (Fin h0) (Fin k) (Fin 0) (Fin dt) i) (Fin 0)"
    using assms by (simp add: sample_h_def)
  show ?thesis
    unfolding falling_mass_stop [OF stop run]
    by (simp add: sample_t_def sample_h_def sample_v_def start_velocity_def)
qed

lemma accel_free: "mass \<noteq> 0 \<Longrightarrow> accel 0 mass v = - (981 / 100)"
  by (simp add: accel_def)

lemma vel_free: "mass \<noteq> 0 \<Longrightarrow> vel 0 mass dt n = - (981 / 100) * (real n * dt)"
  by (induction n) (simp_all add: accel_free algebra_simps)

lemma hgt_free:
  assumes "mass \<noteq> 0"
  shows "hgt h0 0 mass dt n = h0 - (1 / 2) * (981 / 100) * (real n * dt)\<^sup>2"
proof (induction n)
  case 0
  show ?case by simp
next
  case (Suc n)
  have "hgt h0 0 mass dt (Suc n) =
          h0 - (1 / 2) * (981 / 100) * (real n * dt)\<^sup>2
             + (- (981 / 100) * (real n * dt) * dt + (1 / 2) * (- (981 / 100)) * dt\<^sup>2)"
    using assms by (simp add: Suc.IH accel_free vel_free)
  also have "\<dots> = h0 - (1 / 2) * (981 / 100) * (real (Suc n) * dt)\<^sup>2"
    by (simp add: power2_eq_square algebra_simps)
  finally show ?case .
qed

lemma free_fall_lands:
  assumes "0 < dt"
  shows "\<exists>n. h0 - (1 / 2) * (981 / 100) * (real n * dt)\<^sup>2 \<le> 0"
proof -
  obtain m :: nat where m: "h0 / ((981 / 200) * dt\<^sup>2) \<le> real m"
    using real_arch_simple by blast
  define n where "n = Suc m"
  have n: "h0 / ((981 / 200) * dt\<^sup>2) \<le> real n" "1 \<le> real n"
    using m by (simp_all add: n_def)
  have pos: "0 < (981 / 200) * dt\<^sup>2" using assms by simp
  have "h0 \<le> real n * ((981 / 200) * dt\<^sup>2)"
    using n(1) pos by (simp add: pos_divide_le_eq)
  also have "\<dots> \<le> (real n * real n) * ((981 / 200) * dt\<^sup>2)"
  proof (rule mult_right_mono)
    have "real n * 1 \<le> real n * real n" using n(2) by (intro mult_left_mono) simp_all
    then show "real n \<le> real n * real n" by simp
    show "0 \<le> (981 / 200) * dt\<^sup>2" using pos by simp
  qed
  finally show ?thesis
    by (intro exI [of _ n]) (simp add: power2_eq_square algebra_simps)
qed

lemma free_fall_run:
  assumes "0 < dt" "mass \<noteq> 0"
  shows "\<exists>n. falling_mass (Fin h0) (Fin 0) (Fin mass) (Fin dt) =
           Some (map (\<lambda>i. Fin (real i * dt)) [0..<n],
                 map (\<lambda>i. Fin (h0 - (1 / 2) * (981 / 100) * (real i * dt)\<^sup>2)) [0..<n],
                 map (\<lambda>i. Fin (- (981 / 100) * (real i * dt))) [0..<n])"
proof -
  from free_fall_lands [OF assms(1)] obtain n where
    "h0 - (1 / 2) * (981 / 100) * (real n * dt)\<^sup>2 \<le> 0" ..
  then have "\<not> np_gt (sample_h (Fin h0) (Fin 0) (Fin mass) (Fin dt) n) (Fin 0)"
    using assms(2) by (simp add: sample_h_Fin hgt_free)
  from falling_mass_returns [OF this] obtain m where
    "falling_mass (Fin h0) (Fin 0) (Fin mass) (Fin dt) =
       Some (map (sample_t (Fin h0) (Fin 0) (Fin mass) (Fin dt)) [0..<m],
             map (sample_h (Fin h0) (Fin 0) (Fin mass) (Fin dt)) [0..<m],
             map (sample_v (Fin h0) (Fin 0) (Fin mass) (Fin dt)) [0..<m])"
    by blast
  then show ?thesis
    using assms(2)
    by (intro exI [of _ m]) (simp add: sample_t_Fin_eq sample_h_Fin sample_v_Fin hgt_free vel_free)
qed

section \<open>One and two steps of the velocity\<close>




section \<open>Every run with drag lands\<close>










section \<open>What a returning run has recorded\<close>






section \<open>Example runs\<close>

lemma run_drag:
  "falling_mass (Fin 20) (Fin (1 / 10)) (Fin 2) (Fin 1) =
     Some ([Fin 0, Fin 1, Fin 2],
           [Fin 20, Fin (3019 / 200), Fin (1114361 / 400000)],
           [Fin 0, Fin (- (981 / 100)), Fin (- (2961639 / 200000))])"
  by (simp add: falling_mass_def falling_loop.simps loop_body_def update_state_def
      calculate_acceleration_def start_velocity_def gravity_def sgn_real_def Let_def power2_eq_square)

lemma run_free:
  "falling_mass (Fin 20) (Fin 0) (Fin 2) (Fin 1) =
     Some ([Fin 0, Fin 1, Fin 2], [Fin 20, Fin (3019 / 200), Fin (19 / 50)],
           [Fin 0, Fin (- (981 / 100)), Fin (- (981 / 50))])"
  by (simp add: falling_mass_def falling_loop.simps loop_body_def update_state_def
      calculate_acceleration_def start_velocity_def gravity_def sgn_real_def Let_def power2_eq_square)


section \<open>The acceleration model and the state update\<close>




section \<open>The simulation driver\<close>

text \<open>
  C10. With an initial height that is not above the ground the loop body never runs:
  \<^verbatim>\<open>falling_mass\<close> returns three empty lists, whatever the other arguments are.
\<close>

theorem falling_mass_not_above_ground:
  "h0 \<le> 0 \<Longrightarrow> falling_mass (Fin h0) k mass dt = Some ([], [], [])"
  using falling_mass_stop [of "Fin h0" k mass dt 0]
  by (simp add: sample_h_def)

theorem falling_mass_not_above_ground_witness:
  "(- 3 :: real) \<le> 0 \<and>
   falling_mass (Fin (- 3)) (Fin (35 / 1000)) (Fin 0) (Fin (1 / 10)) = Some ([], [], [])"
  using falling_mass_not_above_ground [of "- 3" "Fin (35 / 1000)" "Fin 0" "Fin (1 / 10)"]
  by simp

text \<open>
  C6. When the initial height is above the ground, the three lists a call returns are
  not empty and begin with the initial state: time \<open>0\<close>, the initial height, velocity \<open>0\<close>.
\<close>

theorem falling_mass_first_sample:
  assumes "np_gt initial_height (Fin 0)"
    and "falling_mass initial_height k mass dt = Some (ts, hs, vs)"
  shows "ts \<noteq> [] \<and> hs \<noteq> [] \<and> vs \<noteq> []
         \<and> ts ! 0 = Fin 0 \<and> hs ! 0 = initial_height \<and> vs ! 0 = Fin 0"
proof -
  from falling_mass_Some [OF assms(2)] obtain n where n:
    "ts = map (sample_t initial_height k mass dt) [0..<n]"
    "hs = map (sample_h initial_height k mass dt) [0..<n]"
    "vs = map (sample_v initial_height k mass dt) [0..<n]"
    "\<not> np_gt (sample_h initial_height k mass dt n) (Fin 0)"
    by blast
  have "0 < n"
  proof (cases n)
    case 0
    with n(4) assms(1) show ?thesis by (simp add: sample_h_def)
  qed simp
  then show ?thesis
    using n(1-3) by (simp add: sample_t_def sample_h_def sample_v_def start_velocity_def)
qed

theorem falling_mass_first_sample_witness:
  "np_gt (Fin 20) (Fin 0)
   \<and> falling_mass (Fin 20) (Fin (1 / 10)) (Fin 2) (Fin 1) =
       Some ([Fin 0, Fin 1, Fin 2],
             [Fin 20, Fin (3019 / 200), Fin (1114361 / 400000)],
             [Fin 0, Fin (- (981 / 100)), Fin (- (2961639 / 200000))])
   \<and> [Fin 0, Fin 1, Fin 2] ! 0 = Fin 0
   \<and> [Fin 20, Fin (3019 / 200), Fin (1114361 / 400000)] ! 0 = Fin 20
   \<and> [Fin 0, Fin (- (981 / 100)), Fin (- (2961639 / 200000))] ! 0 = Fin 0"
proof -
  have h: "np_gt (Fin 20) (Fin 0)" by simp
  show ?thesis
    using falling_mass_first_sample [OF h run_drag] h run_drag by simp
qed



section \<open>Free fall\<close>

text \<open>
  C7. With \<open>k = 0\<close>, a finite initial height above the ground and a finite \<open>dt > 0\<close>
  the call returns, and its samples lie on the closed-form free-fall curve: the sample at
  index \<open>i\<close> is taken at time \<open>i * dt\<close> and has height
  \<open>h0 - 0.5 * 9.81 * (i * dt)\<^sup>2\<close>, with no discretisation error at all.
\<close>

theorem free_fall_closed_form:
  assumes "0 < h0" and "0 < dt"
  shows "\<exists>ts hs vs. falling_mass (Fin h0) (Fin 0) (Fin mass) (Fin dt) = Some (ts, hs, vs)
           \<and> length ts = length hs \<and> hs \<noteq> []
           \<and> (\<forall>i<length hs. ts ! i = Fin (real i * dt)
                 \<and> hs ! i = Fin (h0 - (1 / 2) * (981 / 100) * (real i * dt)\<^sup>2))"
proof (cases "mass = 0")
  case True
  show ?thesis
    unfolding True falling_mass_massless [OF assms(1)] by simp
next
  case False
  from free_fall_run [OF assms(2) False, of h0] obtain n where n:
    "falling_mass (Fin h0) (Fin 0) (Fin mass) (Fin dt) =
           Some (map (\<lambda>i. Fin (real i * dt)) [0..<n],
                 map (\<lambda>i. Fin (h0 - (1 / 2) * (981 / 100) * (real i * dt)\<^sup>2)) [0..<n],
                 map (\<lambda>i. Fin (- (981 / 100) * (real i * dt))) [0..<n])" ..
  have "n \<noteq> 0"
  proof
    assume "n = 0"
    with n have "falling_mass (Fin h0) (Fin 0) (Fin mass) (Fin dt) = Some ([], [], [])" by simp
    from falling_mass_Some [OF this] have "\<not> np_gt (sample_h (Fin h0) (Fin 0) (Fin mass) (Fin dt) 0) (Fin 0)"
      by auto
    with assms(1) show False by (simp add: sample_h_def)
  qed
  then show ?thesis unfolding n by simp
qed

theorem free_fall_closed_form_witness:
  "(0::real) < 20 \<and> (0::real) < 1
   \<and> falling_mass (Fin 20) (Fin 0) (Fin 2) (Fin 1) =
       Some ([Fin 0, Fin 1, Fin 2], [Fin 20, Fin (3019 / 200), Fin (19 / 50)],
             [Fin 0, Fin (- (981 / 100)), Fin (- (981 / 50))])
   \<and> [Fin 20, Fin (3019 / 200), Fin (19 / 50)] ! 2 = Fin (20 - (1 / 2) * (981 / 100) * (real 2 * 1)\<^sup>2)"
  using free_fall_closed_form [of 20 1 2] run_free by simp



section \<open>Mass zero\<close>




section \<open>The recorded samples and termination\<close>





end
